theory Spec2Isabelle
  imports Main "HOL-Library.AList"
begin

section \<open>The thermostat API server (server/server.go, server/validate.go)\<close>

text \<open>
  A shallow embedding of the Go server. Go's \<open>int\<close> is modelled by \<open>int\<close>: identifiers
  start at 1 and 2 and grow by one per created record, and set points are kept inside
  30..100 by validation, so no value comes near the 64-bit bounds. The places where the
  width is visible (the range check of \<open>strconv.Atoi\<close>) are written out. Go's \<open>/\<close>
  truncates towards zero and is modelled by \<open>quo\<close>, not by HOL's \<open>div\<close>.

  A \<open>time.Time\<close> is a reading of the clock, a natural number; every \<open>time.Now()\<close>
  of the source is a parameter \<open>now\<close> of the operation that calls it.
\<close>

subsection \<open>Data\<close>

record thermostat =
  Id_t :: int
  Name :: string
  CurrentTemp :: int
  PreviousTemp :: int
  OperatingMode :: string
  CoolSetPoint :: int
  HeatSetPoint :: int
  FanMode :: string
  LastChanged :: nat

text \<open>The zero value of the struct, which a composite literal starts from.\<close>

definition zero_thermostat :: thermostat where
  "zero_thermostat =
     \<lparr>Id_t = 0, Name = [], CurrentTemp = 0, PreviousTemp = 0, OperatingMode = [],
      CoolSetPoint = 0, HeatSetPoint = 0, FanMode = [], LastChanged = 0\<rparr>"

text \<open>
  The desired state sent by a client. Its fields carry the suffix \<open>_u\<close>, since the
  struct shares their names with \<open>thermostat\<close>.
\<close>

record updateThermostat =
  Name_u :: string
  Temperature :: int
  OperatingMode_u :: string
  CoolSetPoint_u :: int
  HeatSetPoint_u :: int
  FanMode_u :: string

record errResponse =
  Code :: int
  Msg :: string
  Description :: string

definition StatusOK :: int where "StatusOK = 200"
definition StatusBadRequest :: int where "StatusBadRequest = 400"
definition StatusNotFound :: int where "StatusNotFound = 404"

definition validOpModes :: "string list" where
  "validOpModes = [''cool'', ''heat'', ''off'']"

definition validFanModes :: "string list" where
  "validFanModes = [''auto'', ''on'']"

definition validFields :: "string list" where
  "validFields = [''name'', ''currentTemp'', ''mode'', ''coolSetPoint'', ''heatSetPoint'', ''fan'']"

definition minCoolSetPt :: int where "minCoolSetPt = 30"
definition maxCoolSetPt :: int where "maxCoolSetPt = 100"
definition minHeatSetPt :: int where "minHeatSetPt = 30"
definition maxHeatSetPt :: int where "maxHeatSetPt = 100"

subsection \<open>Library functions the server calls\<close>

text \<open>Go's integer quotient, truncated towards zero.\<close>

definition quo :: "int \<Rightarrow> int \<Rightarrow> int" where
  "quo a b = sgn a * sgn b * (\<bar>a\<bar> div \<bar>b\<bar>)"

text \<open>\<open>strconv.Itoa\<close>: the decimal rendering of an integer.\<close>

function nat_digits :: "nat \<Rightarrow> string" where
  "nat_digits n =
     (if n < 10 then [''0123456789'' ! n]
      else nat_digits (n div 10) @ [''0123456789'' ! (n mod 10)])"
  by pat_completeness auto
termination
  by (relation "measure id") auto

declare nat_digits.simps [simp del]

definition Itoa :: "int \<Rightarrow> string" where
  "Itoa i = (if i < 0 then CHR ''-'' # nat_digits (nat (- i)) else nat_digits (nat i))"

subsection \<open>Validation\<close>

text \<open>\<open>inArray\<close> is the loop over the slice, returning at the first match.\<close>

primrec inArray :: "string \<Rightarrow> string list \<Rightarrow> bool" where
  "inArray char [] = False"
| "inArray char (a # strings) = (if a = char then True else inArray char strings)"

text \<open>
  Each validator returns \<open>nil\<close> (\<open>None\<close>) or a pointer to an error response. The
  error literals of the source are named, so that statements can refer to them.
\<close>

definition NonWritableField :: errResponse where
  "NonWritableField =
     \<lparr>Code = StatusBadRequest, Msg = ''Non-Writable Field'',
      Description = ''The field 'currentTemp' is not a writable field. You must set the cool or heat set point (coolSetPoint/heatSetPoint) instead.''\<rparr>"

definition InvalidOperatingMode :: errResponse where
  "InvalidOperatingMode =
     \<lparr>Code = StatusBadRequest, Msg = ''Invalid Operating Mode'',
      Description = ''The operating mode provided is not valid. Valid choices are: 'cool', 'heat', or 'off'.''\<rparr>"

definition InvalidFanMode :: errResponse where
  "InvalidFanMode =
     \<lparr>Code = StatusBadRequest, Msg = ''Invalid Fan Mode'',
      Description = ''The fan mode provided is not valid. Valid choices are: 'auto' or 'on'.''\<rparr>"

definition InvalidCoolSetPoint :: errResponse where
  "InvalidCoolSetPoint =
     \<lparr>Code = StatusBadRequest, Msg = ''Invalid Cool Set Point'',
      Description = ''The cool set point provided is not within the allowed range. It must be between ''
        @ Itoa minCoolSetPt @ '' and '' @ Itoa maxCoolSetPt @ '' degrees Fahrenheit.''\<rparr>"

definition InvalidHeatSetPoint :: errResponse where
  "InvalidHeatSetPoint =
     \<lparr>Code = StatusBadRequest, Msg = ''Invalid Heat Set Point'',
      Description = ''The heat set point provided is not within the allowed range. It must be between ''
        @ Itoa minHeatSetPt @ '' and '' @ Itoa maxHeatSetPt @ '' degrees Fahrenheit.''\<rparr>"

definition validateOpMode :: "string \<Rightarrow> errResponse option" where
  "validateOpMode val =
     (if val \<noteq> [] \<and> \<not> inArray val validOpModes then Some InvalidOperatingMode else None)"

definition validateFanMode :: "string \<Rightarrow> errResponse option" where
  "validateFanMode val =
     (if val \<noteq> [] \<and> \<not> inArray val validFanModes then Some InvalidFanMode else None)"

definition validateCoolSetPt :: "int \<Rightarrow> errResponse option" where
  "validateCoolSetPt val =
     (if val \<noteq> 0 \<and> (val > maxCoolSetPt \<or> val < minCoolSetPt) then Some InvalidCoolSetPoint
      else None)"

definition validateHeatSetPt :: "int \<Rightarrow> errResponse option" where
  "validateHeatSetPt val =
     (if val \<noteq> 0 \<and> (val > maxHeatSetPt \<or> val < minHeatSetPt) then Some InvalidHeatSetPoint
      else None)"

text \<open>
  \<open>validateData\<close> is defined twice in the sources, in server.go and in validate.go, with
  the same text; this is that text.
\<close>

definition validateData :: "updateThermostat \<Rightarrow> errResponse option" where
  "validateData desired =
     (if Temperature desired \<noteq> 0 then Some NonWritableField
      else case validateOpMode (OperatingMode_u desired) of
        Some err \<Rightarrow> Some err
      | None \<Rightarrow>
          (case validateFanMode (FanMode_u desired) of
            Some err \<Rightarrow> Some err
          | None \<Rightarrow>
              (case validateCoolSetPt (CoolSetPoint_u desired) of
                Some err \<Rightarrow> Some err
              | None \<Rightarrow>
                  (case validateHeatSetPt (HeatSetPoint_u desired) of
                    Some err \<Rightarrow> Some err
                  | None \<Rightarrow> None))))"

subsection \<open>Parsing an identifier\<close>

text \<open>
  \<open>strconv.Atoi\<close> of the Go library, as documented: an optional sign and decimal digits.
  It returns 0 and a syntax error for anything else, and the nearest 64-bit value and a
  range error for a number outside the range of \<open>int\<close>.
\<close>

datatype NumError = ErrSyntax | ErrRange

definition digits_value :: "string \<Rightarrow> nat" where
  "digits_value s = foldl (\<lambda>n ch. n * 10 + (of_char ch - 48)) 0 s"

definition Atoi :: "string \<Rightarrow> int \<times> NumError option" where
  "Atoi s =
     (let s1 = (if s \<noteq> [] \<and> (hd s = CHR ''-'' \<or> hd s = CHR ''+'') then tl s else s) in
      if s1 = [] \<or> \<not> list_all (\<lambda>ch. ch \<in> set ''0123456789'') s1 then (0, Some ErrSyntax)
      else
        let n = int (digits_value s1);
            v = (if hd s = CHR ''-'' then - n else n)
        in if v > 2 ^ 63 - 1 then (2 ^ 63 - 1, Some ErrRange)
           else if v < - (2 ^ 63) then (- (2 ^ 63), Some ErrRange)
           else (v, None))"

text \<open>
  The text of the error of \<open>Atoi\<close>, \<open>err.Error()\<close>. The library quotes the input with
  \<open>strconv.Quote\<close>; the escapes it adds for quotes, backslashes and unprintable bytes are
  left out here. No statement below depends on this text.
\<close>

definition Error_text :: "string \<Rightarrow> NumError \<Rightarrow> string" where
  "Error_text s e =
     ''strconv.Atoi: parsing '' @ [CHR 0x22] @ s @ [CHR 0x22] @ '': '' @
     (case e of ErrSyntax \<Rightarrow> ''invalid syntax'' | ErrRange \<Rightarrow> ''value out of range'')"

subsection \<open>The store\<close>

text \<open>
  \<open>currentState\<close> is a mutex and a map from id to a pointer to a record. No operation
  writes through a stored pointer: an update builds a new record and replaces the entry.
  So the map is modelled with the records as values, as an association list with
  \<open>map_of\<close> for the lookup and \<open>AList.update\<close> for the assignment to a key; the
  order of the list stands for the order in which \<open>range\<close> happens to visit the map.

  The mutex is modelled by what is done with it: \<open>calls\<close> lists, in program order, the
  calls of \<open>Lock\<close> and \<open>Unlock\<close> and the reads and writes of the map made since
  start-up.
\<close>

datatype event = Lock | Unlock | MapRead | MapWrite

record currentState =
  thermostats :: "(int \<times> thermostat) list"
  calls :: "event list"

definition emit :: "event \<Rightarrow> currentState \<Rightarrow> currentState" where
  "emit e home = home\<lparr>calls := calls home @ [e]\<rparr>"

text \<open>Every panic of the source is a value.\<close>

datatype panic = IndexOutOfRange | InterfaceConversion

text \<open>Indexing a slice: Go panics outside \<open>0 \<le> i < len\<close>.\<close>

definition index :: "int list \<Rightarrow> int \<Rightarrow> panic + int" where
  "index xs i = (if 0 \<le> i \<and> i < int (length xs) then Inr (xs ! nat i) else Inl IndexOutOfRange)"

text \<open>\<open>init\<close>: the two seeded records. The parameters are its two readings of the clock.\<close>

definition thermostat1 :: "nat \<Rightarrow> thermostat" where
  "thermostat1 now =
     zero_thermostat\<lparr>Id_t := 1, Name := ''Downstairs Thermostat'', CurrentTemp := 71,
       OperatingMode := ''heat'', CoolSetPoint := 68, HeatSetPoint := 72, FanMode := ''auto'',
       LastChanged := now\<rparr>"

definition thermostat2 :: "nat \<Rightarrow> thermostat" where
  "thermostat2 now =
     zero_thermostat\<lparr>Id_t := 2, Name := ''Upstairs Thermostat'', CurrentTemp := 72,
       OperatingMode := ''cool'', CoolSetPoint := 69, HeatSetPoint := 73, FanMode := ''on'',
       LastChanged := now\<rparr>"

definition init :: "nat \<Rightarrow> nat \<Rightarrow> currentState" where
  "init now1 now2 =
     \<lparr>thermostats = AList.update 2 (thermostat2 now2) (AList.update 1 (thermostat1 now1) []),
      calls = []\<rparr>"

text \<open>\<open>Thermostat\<close>, the getter. The deferred \<open>Unlock\<close> runs when the function returns.\<close>

definition Thermostat :: "currentState \<Rightarrow> int \<Rightarrow> (errResponse + thermostat) \<times> currentState" where
  "Thermostat home ident =
     (let home = emit Lock home;
          home = emit MapRead home;
          r = (case map_of (thermostats home) ident of
                 None \<Rightarrow>
                   Inl \<lparr>Code = StatusNotFound, Msg = ''Not Found'',
                        Description = ''No thermostat found for id: '' @ Itoa ident\<rparr>
               | Some t \<Rightarrow> Inr t)
      in (r, emit Unlock home))"

definition UpdateThermostat ::
  "currentState \<Rightarrow> nat \<Rightarrow> thermostat \<Rightarrow> updateThermostat \<Rightarrow> currentState" where
  "UpdateThermostat home now target desired =
     (let home = emit Lock home;
          updated = zero_thermostat\<lparr>Id_t := Id_t target\<rparr>;
          updated = (if Name_u desired \<noteq> [] then updated\<lparr>Name := Name_u desired\<rparr>
                     else updated\<lparr>Name := Name target\<rparr>);
          updated = (if OperatingMode_u desired \<noteq> []
                     then updated\<lparr>OperatingMode := OperatingMode_u desired\<rparr>
                     else updated\<lparr>OperatingMode := OperatingMode target\<rparr>);
          updated = (if CoolSetPoint_u desired \<noteq> 0
                     then updated\<lparr>CoolSetPoint := CoolSetPoint_u desired\<rparr>
                     else updated\<lparr>CoolSetPoint := CoolSetPoint target\<rparr>);
          updated = (if HeatSetPoint_u desired \<noteq> 0
                     then updated\<lparr>HeatSetPoint := HeatSetPoint_u desired\<rparr>
                     else updated\<lparr>HeatSetPoint := HeatSetPoint target\<rparr>);
          updated = (if FanMode_u desired \<noteq> [] then updated\<lparr>FanMode := FanMode_u desired\<rparr>
                     else updated\<lparr>FanMode := FanMode target\<rparr>);
          temp = quo (CoolSetPoint updated + HeatSetPoint updated) 2;
          updated = (if temp \<noteq> CurrentTemp target
                     then updated\<lparr>CurrentTemp := temp, PreviousTemp := CurrentTemp target\<rparr>
                     else updated);
          updated = updated\<lparr>LastChanged := now\<rparr>;
          home = emit MapWrite
                   (home\<lparr>thermostats := AList.update (Id_t target) updated (thermostats home)\<rparr>)
      in emit Unlock home)"

text \<open>
  \<open>AddThermostat\<close>. The keys are collected by a \<open>range\<close> over the map, sorted, and the
  last one is read by index; on an empty slice that index is \<open>-1\<close> and the read panics.
\<close>

definition AddThermostat ::
  "currentState \<Rightarrow> nat \<Rightarrow> updateThermostat \<Rightarrow> panic + int \<times> currentState" where
  "AddThermostat home now desired =
     (let home = emit Lock home;
          home = emit MapRead home;
          ints = sort (map fst (thermostats home))
      in case index ints (int (length ints) - 1) of
           Inl p \<Rightarrow> Inl p
         | Inr mx \<Rightarrow>
             (let newId = mx + 1;
                  updated = zero_thermostat\<lparr>Id_t := newId\<rparr>;
                  updated = (if Name_u desired \<noteq> [] then updated\<lparr>Name := Name_u desired\<rparr>
                             else updated\<lparr>Name := ''Thermostat #'' @ Itoa newId\<rparr>);
                  updated = (if OperatingMode_u desired \<noteq> []
                             then updated\<lparr>OperatingMode := OperatingMode_u desired\<rparr>
                             else updated\<lparr>OperatingMode := ''off''\<rparr>);
                  updated = (if CoolSetPoint_u desired \<noteq> 0
                             then updated\<lparr>CoolSetPoint := CoolSetPoint_u desired\<rparr>
                             else updated\<lparr>CoolSetPoint := 71\<rparr>);
                  updated = (if HeatSetPoint_u desired \<noteq> 0
                             then updated\<lparr>HeatSetPoint := HeatSetPoint_u desired\<rparr>
                             else updated\<lparr>HeatSetPoint := 71\<rparr>);
                  updated = (if FanMode_u desired \<noteq> [] then updated\<lparr>FanMode := FanMode_u desired\<rparr>
                             else updated\<lparr>FanMode := ''auto''\<rparr>);
                  updated = (if CoolSetPoint updated \<noteq> 0 \<and> HeatSetPoint updated \<noteq> 0
                             then updated\<lparr>CurrentTemp :=
                                    quo (CoolSetPoint updated + HeatSetPoint updated) 2\<rparr>
                             else updated\<lparr>CurrentTemp := 71\<rparr>);
                  updated = updated\<lparr>LastChanged := now\<rparr>;
                  home = emit MapWrite
                           (home\<lparr>thermostats := AList.update newId updated (thermostats home)\<rparr>);
                  home = emit Unlock home
              in Inr (newId, home)))"

subsection \<open>Requests and responses\<close>

text \<open>
  What is written to a response: \<open>sendJSON\<close> marshals a value and appends the document
  to the body. The values the server sends are error responses, records, a slice of
  records, and the bare string or integer of a field; \<open>JNull\<close> is the \<open>nil\<close> interface
  value. \<open>Raw\<close> is a body set as text. Marshalling does not fail on these values, and
  every caller drops the error \<open>sendJSON\<close> returns, so \<open>sendJSON\<close> is modelled by
  its effect on the context.
\<close>

datatype payload =
  JErr errResponse
| JThermostat thermostat
| JThermostats "thermostat list"
| JString string
| JInt int
| JNull
| Raw string

text \<open>
  The part of \<open>fasthttp.RequestCtx\<close> the handlers use: the user values \<open>id\<close> and
  \<open>field\<close> set by the router from the path, the user value \<open>thermostat\<close> set by the
  middleware, the result of \<open>json.Unmarshal\<close> on the request's body (\<open>Inl\<close> the text of
  its error), and the response.
\<close>

record RequestCtx =
  UserValue_id :: "string option"
  UserValue_field :: "string option"
  UserValue_thermostat :: "thermostat option"
  Unmarshal_PostBody :: "string + updateThermostat"
  StatusCode :: int
  ContentType :: string
  Body :: "payload list"

type_synonym RequestHandler =
  "nat \<Rightarrow> RequestCtx \<Rightarrow> currentState \<Rightarrow> panic + RequestCtx \<times> currentState"

definition sendJSON :: "RequestCtx \<Rightarrow> payload \<Rightarrow> RequestCtx" where
  "sendJSON req v = req\<lparr>ContentType := ''application/json'', Body := Body req @ [v]\<rparr>"

text \<open>
  \<open>HandleRoute\<close>, the middleware. After the response to an identifier that does not
  parse, the source has no \<open>return\<close>: control goes on to the lookup with the \<open>id\<close> that
  \<open>Atoi\<close> returned.
\<close>

definition HandleRoute :: "RequestHandler \<Rightarrow> RequestHandler" where
  "HandleRoute h now req home =
     (let req = req\<lparr>ContentType := ''application/json''\<rparr> in
      case UserValue_id req of
        None \<Rightarrow> h now req home
      | Some idCheck \<Rightarrow>
          (let (ident, err) = Atoi idCheck;
               req = (case err of
                        Some e \<Rightarrow>
                          sendJSON (req\<lparr>StatusCode := StatusBadRequest\<rparr>)
                            (JErr \<lparr>Code = StatusBadRequest, Msg = ''Invalid identifier provided'',
                                   Description = Error_text idCheck e\<rparr>)
                      | None \<Rightarrow> req);
               (r, home) = Thermostat home ident
           in case r of
                Inl errRes \<Rightarrow> Inr (sendJSON (req\<lparr>StatusCode := StatusNotFound\<rparr>) (JErr errRes), home)
              | Inr t \<Rightarrow> h now (req\<lparr>UserValue_thermostat := Some t\<rparr>) home))"

definition Index :: RequestHandler where
  "Index now req home = Inr (req\<lparr>StatusCode := StatusOK, Body := [Raw ''Index Page'']\<rparr>, home)"

text \<open>\<open>GetThermostats\<close> ranges over the map; it calls neither \<open>Lock\<close> nor \<open>Unlock\<close>.\<close>

definition GetThermostats :: RequestHandler where
  "GetThermostats now req home =
     (let home = emit MapRead home;
          therms = map snd (thermostats home)
      in if length therms = 0
         then Inr (sendJSON (req\<lparr>StatusCode := StatusNotFound\<rparr>)
                     (JErr \<lparr>Code = StatusNotFound, Msg = ''Not Found'',
                            Description = ''No thermostats were found.''\<rparr>), home)
         else Inr (sendJSON (req\<lparr>StatusCode := StatusOK\<rparr>) (JThermostats therms), home))"

text \<open>A type assertion on a user value that was never set panics.\<close>

definition GetThermostat :: RequestHandler where
  "GetThermostat now req home =
     (let req = req\<lparr>StatusCode := StatusOK\<rparr> in
      case UserValue_thermostat req of
        None \<Rightarrow> Inl InterfaceConversion
      | Some t \<Rightarrow> Inr (sendJSON req (JThermostat t), home))"

definition GetField :: RequestHandler where
  "GetField now req home =
     (case UserValue_field req of
        None \<Rightarrow> Inl InterfaceConversion
      | Some field \<Rightarrow>
          if \<not> inArray field validFields
          then Inr (sendJSON (req\<lparr>StatusCode := StatusBadRequest\<rparr>)
                      (JErr \<lparr>Code = StatusBadRequest, Msg = ''Invalid Property'',
                             Description = ''The property provided is not a valid property of a thermostat. Valid choices are: 'name', 'currentTemp', 'mode', 'coolSetPoint', 'heatSetPoint', or 'fan'.''\<rparr>),
                    home)
          else
            (case UserValue_thermostat req of
               None \<Rightarrow> Inl InterfaceConversion
             | Some t \<Rightarrow>
                 (let (isEmpty, returnVal) =
                        (if field = ''name''
                           then (if Name t = [] then (True, JNull) else (False, JString (Name t)))
                         else if field = ''currentTemp''
                           then (if CurrentTemp t = 0 then (True, JNull)
                                 else (False, JInt (CurrentTemp t)))
                         else if field = ''mode''
                           then (if OperatingMode t = [] then (True, JNull)
                                 else (False, JString (OperatingMode t)))
                         else if field = ''coolSetPoint''
                           then (if CoolSetPoint t = 0 then (True, JNull)
                                 else (False, JInt (CoolSetPoint t)))
                         else if field = ''heatSetPoint''
                           then (if HeatSetPoint t = 0 then (True, JNull)
                                 else (False, JInt (HeatSetPoint t)))
                         else if field = ''fan''
                           then (if FanMode t = [] then (True, JNull)
                                 else (False, JString (FanMode t)))
                         else (False, JNull))
                  in if isEmpty
                     then Inr (sendJSON (req\<lparr>StatusCode := StatusNotFound\<rparr>)
                                 (JErr \<lparr>Code = StatusNotFound, Msg = ''Not Found'',
                                        Description = ''No field '' @ [CHR 0x27] @ field @ [CHR 0x27]
                                          @ '' exists for requested thermostat.''\<rparr>), home)
                     else Inr (sendJSON (req\<lparr>StatusCode := StatusOK\<rparr>) returnVal, home))))"

definition PutThermostat :: RequestHandler where
  "PutThermostat now req home =
     (case Unmarshal_PostBody req of
        Inl err \<Rightarrow>
          Inr (sendJSON (req\<lparr>StatusCode := StatusBadRequest\<rparr>)
                 (JErr \<lparr>Code = StatusBadRequest, Msg = ''Invalid JSON body provided'',
                        Description = err\<rparr>), home)
      | Inr desired \<Rightarrow>
          (case validateData desired of
             Some err \<Rightarrow> Inr (sendJSON (req\<lparr>StatusCode := StatusBadRequest\<rparr>) (JErr err), home)
           | None \<Rightarrow>
               (case UserValue_thermostat req of
                  None \<Rightarrow> Inl InterfaceConversion
                | Some target \<Rightarrow>
                    Inr (req\<lparr>StatusCode := StatusOK\<rparr>, UpdateThermostat home now target desired))))"

definition PostThermostat :: RequestHandler where
  "PostThermostat now req home =
     (case Unmarshal_PostBody req of
        Inl err \<Rightarrow>
          Inr (sendJSON (req\<lparr>StatusCode := StatusBadRequest\<rparr>)
                 (JErr \<lparr>Code = StatusBadRequest, Msg = ''Invalid JSON body provided'',
                        Description = err\<rparr>), home)
      | Inr desired \<Rightarrow>
          (case validateData desired of
             Some err \<Rightarrow> Inr (sendJSON (req\<lparr>StatusCode := StatusBadRequest\<rparr>) (JErr err), home)
           | None \<Rightarrow>
               (case AddThermostat home now desired of
                  Inl p \<Rightarrow> Inl p
                | Inr (newId, home) \<Rightarrow>
                    (let req = req\<lparr>StatusCode := StatusOK\<rparr>;
                         (r, home) = Thermostat home newId
                     in case r of
                          Inl err \<Rightarrow>
                            Inr (sendJSON (req\<lparr>StatusCode := StatusBadRequest\<rparr>) (JErr err), home)
                        | Inr newThermostat \<Rightarrow>
                            Inr (sendJSON req (JThermostat newThermostat), home)))))"

text \<open>
  The routes of \<open>main\<close>. A request is its route with the path parameters the router
  extracts and, for PUT and POST, what \<open>json.Unmarshal\<close> makes of the body. A fresh
  context has status 200 and no user value.
\<close>

datatype request =
  GET_index
| GET_thermostats
| GET_thermostat string
| GET_field string string
| PUT_thermostat string "string + updateThermostat"
| POST_thermostats "string + updateThermostat"

definition new_ctx :: RequestCtx where
  "new_ctx =
     \<lparr>UserValue_id = None, UserValue_field = None, UserValue_thermostat = None,
      Unmarshal_PostBody = Inl [], StatusCode = StatusOK,
      ContentType = ''text/plain; charset=utf-8'', Body = []\<rparr>"

fun serve :: "nat \<Rightarrow> request \<Rightarrow> currentState \<Rightarrow> panic + RequestCtx \<times> currentState" where
  "serve now GET_index home = Index now new_ctx home"
| "serve now GET_thermostats home = HandleRoute GetThermostats now new_ctx home"
| "serve now (GET_thermostat i) home =
     HandleRoute GetThermostat now (new_ctx\<lparr>UserValue_id := Some i\<rparr>) home"
| "serve now (GET_field i f) home =
     HandleRoute GetField now (new_ctx\<lparr>UserValue_id := Some i, UserValue_field := Some f\<rparr>) home"
| "serve now (PUT_thermostat i b) home =
     HandleRoute PutThermostat now (new_ctx\<lparr>UserValue_id := Some i, Unmarshal_PostBody := b\<rparr>) home"
| "serve now (POST_thermostats b) home =
     HandleRoute PostThermostat now (new_ctx\<lparr>Unmarshal_PostBody := b\<rparr>) home"

text \<open>The states of the store the server can be in: after \<open>init\<close>, and after each request served.\<close>

inductive reachable :: "currentState \<Rightarrow> bool" where
  reachable_init: "reachable (init now1 now2)"
| reachable_serve: "reachable home \<Longrightarrow> serve now rq home = Inr (req, home') \<Longrightarrow> reachable home'"

text \<open>
  A sequence of calls keeps the locking discipline when every read and every write of
  the map happens between a \<open>Lock\<close> and the next \<open>Unlock\<close>. The flag says whether the
  lock is held.
\<close>

fun guarded :: "bool \<Rightarrow> event list \<Rightarrow> bool" where
  "guarded held [] = True"
| "guarded held (Lock # es) = guarded True es"
| "guarded held (Unlock # es) = guarded False es"
| "guarded held (MapRead # es) = (held \<and> guarded held es)"
| "guarded held (MapWrite # es) = (held \<and> guarded held es)"

text \<open>An update request with every string empty and every integer zero.\<close>

definition no_change :: updateThermostat where
  "no_change =
     \<lparr>Name_u = [], Temperature = 0, OperatingMode_u = [], CoolSetPoint_u = 0,
      HeatSetPoint_u = 0, FanMode_u = []\<rparr>"

section \<open>Properties\<close>

subsection \<open>Validation\<close>

lemma inArray_set: "inArray char strings = (char \<in> set strings)"
  by (induction strings) auto

text \<open>
  C4: validation returns the error of the first violated check, in the order
  currentTemp, operating mode, fan mode, cool set point, heat set point; it returns
  no error exactly when none of the five is violated; zero integers and empty strings
  pass.
\<close>

theorem validateData_first_violation:
  "validateData d =
     (if Temperature d \<noteq> 0 then Some NonWritableField
      else if OperatingMode_u d \<noteq> [] \<and> OperatingMode_u d \<notin> {''heat'', ''cool'', ''off''}
        then Some InvalidOperatingMode
      else if FanMode_u d \<noteq> [] \<and> FanMode_u d \<notin> {''auto'', ''on''} then Some InvalidFanMode
      else if CoolSetPoint_u d \<noteq> 0 \<and> (CoolSetPoint_u d < 30 \<or> 100 < CoolSetPoint_u d)
        then Some InvalidCoolSetPoint
      else if HeatSetPoint_u d \<noteq> 0 \<and> (HeatSetPoint_u d < 30 \<or> 100 < HeatSetPoint_u d)
        then Some InvalidHeatSetPoint
      else None)
   \<and> (validateData d = None) =
       (Temperature d = 0
        \<and> (OperatingMode_u d = [] \<or> OperatingMode_u d \<in> {''heat'', ''cool'', ''off''})
        \<and> (FanMode_u d = [] \<or> FanMode_u d \<in> {''auto'', ''on''})
        \<and> (CoolSetPoint_u d = 0 \<or> (30 \<le> CoolSetPoint_u d \<and> CoolSetPoint_u d \<le> 100))
        \<and> (HeatSetPoint_u d = 0 \<or> (30 \<le> HeatSetPoint_u d \<and> HeatSetPoint_u d \<le> 100)))
   \<and> validateData (d\<lparr>Temperature := 0, OperatingMode_u := [], CoolSetPoint_u := 0,
         HeatSetPoint_u := 0, FanMode_u := []\<rparr>) = None"
  by (auto simp add: validateData_def validateOpMode_def validateFanMode_def
      validateCoolSetPt_def validateHeatSetPt_def inArray_set validOpModes_def validFanModes_def
      minCoolSetPt_def maxCoolSetPt_def minHeatSetPt_def maxHeatSetPt_def)

theorem validateData_first_violation_witness:
  "validateData \<lparr>Name_u = ''Hall'', Temperature = 0, OperatingMode_u = ''on'',
      CoolSetPoint_u = 29, HeatSetPoint_u = 101, FanMode_u = ''off''\<rparr> = Some InvalidOperatingMode
   \<and> validateData \<lparr>Name_u = ''Hall'', Temperature = 0, OperatingMode_u = ''heat'',
      CoolSetPoint_u = 29, HeatSetPoint_u = 101, FanMode_u = ''on''\<rparr> = Some InvalidCoolSetPoint
   \<and> validateData \<lparr>Name_u = ''Hall'', Temperature = 0, OperatingMode_u = ''heat'',
      CoolSetPoint_u = 30, HeatSetPoint_u = 100, FanMode_u = ''on''\<rparr> = None"
  using validateData_first_violation [of "\<lparr>Name_u = ''Hall'', Temperature = 0, OperatingMode_u = ''on'',
      CoolSetPoint_u = 29, HeatSetPoint_u = 101, FanMode_u = ''off''\<rparr>"]
    validateData_first_violation [of "\<lparr>Name_u = ''Hall'', Temperature = 0, OperatingMode_u = ''heat'',
      CoolSetPoint_u = 29, HeatSetPoint_u = 101, FanMode_u = ''on''\<rparr>"]
    validateData_first_violation [of "\<lparr>Name_u = ''Hall'', Temperature = 0, OperatingMode_u = ''heat'',
      CoolSetPoint_u = 30, HeatSetPoint_u = 100, FanMode_u = ''on''\<rparr>"]
  by simp

subsection \<open>Reading a field\<close>

text \<open>
  C6: on a resolved record, a field name outside the six valid names is answered with
  400 and the error "Invalid Property"; a valid name whose field is 0 or the empty
  string with 404 and "Not Found"; any other with 200 and the bare value of the field.
\<close>

theorem GetField_response:
  assumes "UserValue_field req = Some f" and "UserValue_thermostat req = Some t"
  shows "\<exists>req'. GetField now req home = Inr (req', home) \<and>
     (if f \<notin> {''name'', ''currentTemp'', ''mode'', ''coolSetPoint'', ''heatSetPoint'', ''fan''}
      then StatusCode req' = 400 \<and>
        (\<exists>d. Body req' = Body req @ [JErr \<lparr>Code = 400, Msg = ''Invalid Property'', Description = d\<rparr>])
      else if f = ''name'' \<and> Name t = [] \<or> f = ''currentTemp'' \<and> CurrentTemp t = 0
           \<or> f = ''mode'' \<and> OperatingMode t = [] \<or> f = ''coolSetPoint'' \<and> CoolSetPoint t = 0
           \<or> f = ''heatSetPoint'' \<and> HeatSetPoint t = 0 \<or> f = ''fan'' \<and> FanMode t = []
      then StatusCode req' = 404 \<and>
        (\<exists>d. Body req' = Body req @ [JErr \<lparr>Code = 404, Msg = ''Not Found'', Description = d\<rparr>])
      else StatusCode req' = 200 \<and>
        Body req' = Body req @
          [if f = ''name'' then JString (Name t)
           else if f = ''currentTemp'' then JInt (CurrentTemp t)
           else if f = ''mode'' then JString (OperatingMode t)
           else if f = ''coolSetPoint'' then JInt (CoolSetPoint t)
           else if f = ''heatSetPoint'' then JInt (HeatSetPoint t)
           else JString (FanMode t)])"
proof (cases "f \<in> set validFields")
  case False
  with assms show ?thesis
    by (simp add: GetField_def inArray_set sendJSON_def validFields_def
        StatusBadRequest_def)
next
  case True
  then consider "f = ''name''" | "f = ''currentTemp''" | "f = ''mode''" | "f = ''coolSetPoint''"
    | "f = ''heatSetPoint''" | "f = ''fan''"
    by (auto simp add: validFields_def)
  then show ?thesis
  proof cases
    case 1
    with assms show ?thesis
      by (simp add: GetField_def validFields_def sendJSON_def StatusNotFound_def StatusOK_def)
  next
    case 2
    with assms show ?thesis
      by (simp add: GetField_def validFields_def sendJSON_def StatusNotFound_def StatusOK_def)
  next
    case 3
    with assms show ?thesis
      by (simp add: GetField_def validFields_def sendJSON_def StatusNotFound_def StatusOK_def)
  next
    case 4
    with assms show ?thesis
      by (simp add: GetField_def validFields_def sendJSON_def StatusNotFound_def StatusOK_def)
  next
    case 5
    with assms show ?thesis
      by (simp add: GetField_def validFields_def sendJSON_def StatusNotFound_def StatusOK_def)
  next
    case 6
    with assms show ?thesis
      by (simp add: GetField_def validFields_def sendJSON_def StatusNotFound_def StatusOK_def)
  qed
qed

theorem GetField_response_witness:
  "\<exists>req'. GetField 7
       (new_ctx\<lparr>UserValue_id := Some ''1'', UserValue_field := Some ''fan'',
          UserValue_thermostat := Some (thermostat1 0)\<rparr>) (init 0 0) = Inr (req', init 0 0)
     \<and> StatusCode req' = 200 \<and> Body req' = [JString ''auto'']"
  using GetField_response [of "new_ctx\<lparr>UserValue_id := Some ''1'', UserValue_field := Some ''fan'',
          UserValue_thermostat := Some (thermostat1 0)\<rparr>" "''fan''" "thermostat1 0" 7 "init 0 0"]
  by (simp add: new_ctx_def thermostat1_def zero_thermostat_def)

subsection \<open>Listing\<close>

text \<open>
  C7: the list request is answered with 404 and the error "Not Found" when the store
  holds no record, and otherwise with 200 and one array holding exactly the stored
  records, one entry per key.
\<close>

theorem list_response:
  assumes "distinct (map fst (thermostats home))"
  shows "\<exists>req' home'. serve now GET_thermostats home = Inr (req', home') \<and>
     thermostats home' = thermostats home \<and>
     (if thermostats home = []
      then StatusCode req' = 404 \<and>
        (\<exists>d. Body req' = [JErr \<lparr>Code = 404, Msg = ''Not Found'', Description = d\<rparr>])
      else StatusCode req' = 200 \<and>
        (\<exists>therms. Body req' = [JThermostats therms] \<and>
           length therms = card (dom (map_of (thermostats home))) \<and>
           set therms = ran (map_of (thermostats home))))"
proof -
  have len: "length (map snd (thermostats home)) = card (dom (map_of (thermostats home)))"
    using distinct_card [OF assms] by (simp add: dom_map_of_conv_image_fst)
  have rn: "set (map snd (thermostats home)) = ran (map_of (thermostats home))"
    using assms by (simp add: ran_distinct)
  show ?thesis
    using len rn
    by (simp add: HandleRoute_def GetThermostats_def new_ctx_def sendJSON_def emit_def
        StatusNotFound_def StatusOK_def Let_def)
qed

theorem list_response_witness:
  "\<exists>req' home'. serve 3 GET_thermostats (init 1 2) = Inr (req', home') \<and>
     thermostats home' = thermostats (init 1 2) \<and> StatusCode req' = 200 \<and>
     Body req' = [JThermostats [thermostat1 1, thermostat2 2]]"
proof -
  have d: "distinct (map fst (thermostats (init 1 2)))"
    by (simp add: init_def)
  have s: "serve 3 GET_thermostats (init 1 2) =
      Inr (new_ctx\<lparr>StatusCode := 200, ContentType := ''application/json'',
             Body := [JThermostats [thermostat1 1, thermostat2 2]]\<rparr>, emit MapRead (init 1 2))"
    by (simp add: HandleRoute_def GetThermostats_def new_ctx_def sendJSON_def emit_def
        StatusNotFound_def StatusOK_def Let_def init_def)
  show ?thesis
    using list_response [OF d, of 3] s by (simp add: emit_def)
qed

subsection \<open>Creating a record\<close>

lemma quo_2_nonneg: "0 \<le> a \<Longrightarrow> quo a 2 = a div 2"
  by (cases "a = 0") (simp_all add: quo_def)

lemma last_sorted_Max: "sorted xs \<Longrightarrow> xs \<noteq> [] \<Longrightarrow> last xs = Max (set xs)"
proof (induction xs)
  case Nil
  then show ?case by simp
next
  case (Cons x xs)
  show ?case
  proof (cases "xs = []")
    case True
    then show ?thesis by simp
  next
    case False
    with Cons have "last xs = Max (set xs)" by simp
    moreover have "x \<le> Max (set xs)"
    proof -
      from False obtain y where y: "y \<in> set xs" by (cases xs) auto
      with Cons.prems have "x \<le> y" by simp
      also have "y \<le> Max (set xs)" using y by simp
      finally show ?thesis .
    qed
    ultimately show ?thesis
      using False by (simp add: max_def)
  qed
qed

lemma index_last_sort:
  assumes "ks \<noteq> []"
  shows "index (sort ks) (int (length (sort ks)) - 1) = Inr (Max (set ks))"
proof -
  have ne: "sort ks \<noteq> []" using assms by (metis length_sort length_0_conv)
  have "last (sort ks) = Max (set (sort ks))"
    using ne by (intro last_sorted_Max) simp_all
  moreover have "sort ks ! nat (int (length (sort ks)) - 1) = last (sort ks)"
    using ne by (simp add: last_conv_nth nat_diff_distrib')
  moreover have "0 < length ks" using assms by simp
  ultimately show ?thesis
    by (simp add: index_def)
qed

lemma validateData_None_setpoints:
  assumes "validateData d = None"
  shows "(CoolSetPoint_u d = 0 \<or> (30 \<le> CoolSetPoint_u d \<and> CoolSetPoint_u d \<le> 100))
    \<and> (HeatSetPoint_u d = 0 \<or> (30 \<le> HeatSetPoint_u d \<and> HeatSetPoint_u d \<le> 100))"
  using assms
  by (auto simp add: validateData_def validateCoolSetPt_def validateHeatSetPt_def
      minCoolSetPt_def maxCoolSetPt_def minHeatSetPt_def maxHeatSetPt_def
      split: if_splits option.splits)

text \<open>
  C5: on a store that is not empty and a validated request, the create operation
  returns the largest id plus one and stores under it a record with the given fields
  or the defaults, whose currentTemp is the floor of the mean of its set points; every
  other entry is as before; the new id was not in use and is above every id in use.
\<close>

theorem AddThermostat_create:
  assumes "thermostats home \<noteq> []" and "validateData desired = None"
  shows "\<exists>home'.
     (let newId = Max (fst ` set (thermostats home)) + 1;
          cool = (if CoolSetPoint_u desired \<noteq> 0 then CoolSetPoint_u desired else 71);
          heat = (if HeatSetPoint_u desired \<noteq> 0 then HeatSetPoint_u desired else 71)
      in AddThermostat home now desired = Inr (newId, home') \<and>
         map_of (thermostats home') newId =
           Some \<lparr>Id_t = newId,
                 Name = (if Name_u desired \<noteq> [] then Name_u desired
                         else ''Thermostat #'' @ Itoa newId),
                 CurrentTemp = (cool + heat) div 2,
                 PreviousTemp = 0,
                 OperatingMode = (if OperatingMode_u desired \<noteq> [] then OperatingMode_u desired
                                  else ''off''),
                 CoolSetPoint = cool,
                 HeatSetPoint = heat,
                 FanMode = (if FanMode_u desired \<noteq> [] then FanMode_u desired else ''auto''),
                 LastChanged = now\<rparr> \<and>
         (\<forall>k. k \<noteq> newId \<longrightarrow> map_of (thermostats home') k = map_of (thermostats home) k) \<and>
         map_of (thermostats home) newId = None \<and>
         (\<forall>k \<in> fst ` set (thermostats home). k < newId))"
proof -
  let ?ks = "map fst (thermostats home)"
  let ?mx = "Max (fst ` set (thermostats home))"
  have ks: "?ks \<noteq> []" using assms(1) by simp
  have idx: "index (sort ?ks) (int (length (sort ?ks)) - 1) = Inr ?mx"
    using index_last_sort [OF ks] by simp
  have below: "\<forall>k \<in> fst ` set (thermostats home). k < ?mx + 1"
    by (auto intro: le_less_trans [OF Max_ge])
  have fresh: "map_of (thermostats home) (?mx + 1) = None"
  proof -
    have "?mx + 1 \<notin> fst ` set (thermostats home)"
      using below by blast
    then show ?thesis by (simp add: map_of_eq_None_iff)
  qed
  have sp: "(CoolSetPoint_u desired = 0 \<or> (30 \<le> CoolSetPoint_u desired \<and> CoolSetPoint_u desired \<le> 100))
    \<and> (HeatSetPoint_u desired = 0 \<or> (30 \<le> HeatSetPoint_u desired \<and> HeatSetPoint_u desired \<le> 100))"
    using validateData_None_setpoints [OF assms(2)] .
  show ?thesis
    using idx below fresh sp
    by (auto simp add: AddThermostat_def Let_def emit_def zero_thermostat_def update_conv' quo_2_nonneg)
qed

theorem AddThermostat_create_witness:
  "\<exists>home'.
     AddThermostat (init 0 0) 9
       \<lparr>Name_u = ''X'', Temperature = 0, OperatingMode_u = ''heat'', CoolSetPoint_u = 72,
        HeatSetPoint_u = 68, FanMode_u = []\<rparr> = Inr (3, home') \<and>
     map_of (thermostats home') 3 =
       Some \<lparr>Id_t = 3, Name = ''X'', CurrentTemp = 70, PreviousTemp = 0, OperatingMode = ''heat'',
             CoolSetPoint = 72, HeatSetPoint = 68, FanMode = ''auto'', LastChanged = 9\<rparr> \<and>
     map_of (thermostats home') 1 = Some (thermostat1 0) \<and>
     map_of (thermostats home') 2 = Some (thermostat2 0)"
proof -
  let ?d = "\<lparr>Name_u = ''X'', Temperature = 0, OperatingMode_u = ''heat'', CoolSetPoint_u = 72,
        HeatSetPoint_u = 68, FanMode_u = []\<rparr>"
  have ne: "thermostats (init 0 0) \<noteq> []"
    by (simp add: init_def)
  have v: "validateData ?d = None"
    by (simp add: validateData_def validateOpMode_def validateFanMode_def validateCoolSetPt_def
        validateHeatSetPt_def validOpModes_def minCoolSetPt_def maxCoolSetPt_def
        minHeatSetPt_def maxHeatSetPt_def)
  have mx: "Max (fst ` set (thermostats (init 0 0))) = 2"
    by (simp add: init_def)
  have old: "map_of (thermostats (init 0 0)) 1 = Some (thermostat1 0)"
    "map_of (thermostats (init 0 0)) 2 = Some (thermostat2 0)"
    by (simp_all add: init_def)
  from AddThermostat_create [OF ne v, of 9]
  obtain home' where
    a: "AddThermostat (init 0 0) 9 ?d = Inr (3, home')" and
    b: "map_of (thermostats home') 3 =
       Some \<lparr>Id_t = 3, Name = ''X'', CurrentTemp = 70, PreviousTemp = 0, OperatingMode = ''heat'',
             CoolSetPoint = 72, HeatSetPoint = 68, FanMode = ''auto'', LastChanged = 9\<rparr>" and
    c: "\<forall>k. k \<noteq> 3 \<longrightarrow> map_of (thermostats home') k = map_of (thermostats (init 0 0)) k"
    by (auto simp add: mx Let_def)
  from c old have "map_of (thermostats home') 1 = Some (thermostat1 0)"
    and "map_of (thermostats home') 2 = Some (thermostat2 0)"
    by simp_all
  with a b show ?thesis by blast
qed

subsection \<open>The create operation does not panic\<close>

lemma update_not_Nil: "AList.update k v al \<noteq> []"
  by (cases al) simp_all

lemma Thermostat_thermostats: "Thermostat home k = (r, home') \<Longrightarrow> thermostats home' = thermostats home"
  by (auto simp add: Thermostat_def emit_def Let_def)

lemma UpdateThermostat_not_Nil: "thermostats (UpdateThermostat home now target desired) \<noteq> []"
  by (simp add: UpdateThermostat_def emit_def Let_def update_not_Nil)

lemma AddThermostat_not_Nil:
  "AddThermostat home now desired = Inr (newId, home') \<Longrightarrow> thermostats home' \<noteq> []"
  by (auto simp add: AddThermostat_def emit_def Let_def update_not_Nil split: sum.splits)

lemma AddThermostat_returns:
  assumes "thermostats home \<noteq> []"
  shows "\<exists>newId home'. AddThermostat home now desired = Inr (newId, home')"
proof -
  have "map fst (thermostats home) \<noteq> []" using assms by simp
  from index_last_sort [OF this] show ?thesis
    by (simp add: AddThermostat_def emit_def Let_def)
qed

lemma HandleRoute_not_Nil:
  assumes h: "\<And>req0 home0. thermostats home0 \<noteq> [] \<Longrightarrow> h now req0 home0 = Inr (req', home')
      \<Longrightarrow> thermostats home' \<noteq> []"
    and ne: "thermostats home \<noteq> []"
    and run: "HandleRoute h now req home = Inr (req', home')"
  shows "thermostats home' \<noteq> []"
proof (cases "UserValue_id req")
  case None
  with run have "h now (req\<lparr>ContentType := ''application/json''\<rparr>) home = Inr (req', home')"
    by (simp add: HandleRoute_def)
  with h ne show ?thesis by blast
next
  case (Some idCheck)
  obtain r home1 where t: "Thermostat home (fst (Atoi idCheck)) = (r, home1)"
    by (cases "Thermostat home (fst (Atoi idCheck))") auto
  then have ne1: "thermostats home1 \<noteq> []"
    using ne Thermostat_thermostats by metis
  show ?thesis
  proof (cases r)
    case (Inl e)
    with run Some t have "home' = home1"
      by (auto simp add: HandleRoute_def Let_def split: prod.splits)
    with ne1 show ?thesis by simp
  next
    case (Inr t')
    with run Some t obtain req1 where "h now req1 home1 = Inr (req', home')"
      by (auto simp add: HandleRoute_def Let_def split: prod.splits)
    with h ne1 show ?thesis by blast
  qed
qed

lemma GetThermostats_not_Nil:
  "thermostats home \<noteq> [] \<Longrightarrow> GetThermostats now req home = Inr (req', home')
    \<Longrightarrow> thermostats home' \<noteq> []"
  by (auto simp add: GetThermostats_def emit_def Let_def split: if_splits)

lemma GetThermostat_not_Nil:
  "thermostats home \<noteq> [] \<Longrightarrow> GetThermostat now req home = Inr (req', home')
    \<Longrightarrow> thermostats home' \<noteq> []"
  by (auto simp add: GetThermostat_def Let_def split: option.splits)

lemma GetField_not_Nil:
  "thermostats home \<noteq> [] \<Longrightarrow> GetField now req home = Inr (req', home')
    \<Longrightarrow> thermostats home' \<noteq> []"
  by (auto simp add: GetField_def Let_def split: option.splits if_splits prod.splits)

lemma PutThermostat_not_Nil:
  "thermostats home \<noteq> [] \<Longrightarrow> PutThermostat now req home = Inr (req', home')
    \<Longrightarrow> thermostats home' \<noteq> []"
  by (auto simp add: PutThermostat_def UpdateThermostat_not_Nil split: option.splits sum.splits)

lemma PostThermostat_not_Nil:
  assumes "thermostats home \<noteq> []" and "PostThermostat now req home = Inr (req', home')"
  shows "thermostats home' \<noteq> []"
proof (cases "Unmarshal_PostBody req")
  case (Inl e)
  with assms show ?thesis by (simp add: PostThermostat_def)
next
  case (Inr desired)
  show ?thesis
  proof (cases "validateData desired")
    case (Some e)
    with assms Inr show ?thesis by (simp add: PostThermostat_def)
  next
    case None
    from AddThermostat_returns [OF assms(1)] obtain newId home1
      where add: "AddThermostat home now desired = Inr (newId, home1)" by blast
    obtain r home2 where t: "Thermostat home1 newId = (r, home2)"
      by (cases "Thermostat home1 newId") auto
    have "thermostats home2 \<noteq> []"
      using AddThermostat_not_Nil [OF add] Thermostat_thermostats [OF t] by simp
    moreover have "home' = home2"
      using assms(2) Inr None add t
      by (cases r) (simp_all add: PostThermostat_def)
    ultimately show ?thesis by simp
  qed
qed

lemma serve_not_Nil:
  assumes ne: "thermostats home \<noteq> []" and run: "serve now rq home = Inr (req', home')"
  shows "thermostats home' \<noteq> []"
proof (cases rq)
  case GET_index
  with assms show ?thesis by (simp add: Index_def)
next
  case GET_thermostats
  with run have r: "HandleRoute GetThermostats now new_ctx home = Inr (req', home')"
    by simp
  show ?thesis
    by (rule HandleRoute_not_Nil [OF _ ne r], rule GetThermostats_not_Nil)
next
  case (GET_thermostat i)
  with run have r: "HandleRoute GetThermostat now (new_ctx\<lparr>UserValue_id := Some i\<rparr>) home
      = Inr (req', home')"
    by simp
  show ?thesis
    by (rule HandleRoute_not_Nil [OF _ ne r], rule GetThermostat_not_Nil)
next
  case (GET_field i f)
  with run have r: "HandleRoute GetField now
      (new_ctx\<lparr>UserValue_id := Some i, UserValue_field := Some f\<rparr>) home = Inr (req', home')"
    by simp
  show ?thesis
    by (rule HandleRoute_not_Nil [OF _ ne r], rule GetField_not_Nil)
next
  case (PUT_thermostat i b)
  with run have r: "HandleRoute PutThermostat now
      (new_ctx\<lparr>UserValue_id := Some i, Unmarshal_PostBody := b\<rparr>) home = Inr (req', home')"
    by simp
  show ?thesis
    by (rule HandleRoute_not_Nil [OF _ ne r], rule PutThermostat_not_Nil)
next
  case (POST_thermostats b)
  with run have r: "HandleRoute PostThermostat now (new_ctx\<lparr>Unmarshal_PostBody := b\<rparr>) home
      = Inr (req', home')"
    by simp
  show ?thesis
    by (rule HandleRoute_not_Nil [OF _ ne r], rule PostThermostat_not_Nil)
qed

lemma reachable_not_Nil: "reachable home \<Longrightarrow> thermostats home \<noteq> []"
proof (induction rule: reachable.induct)
  case (reachable_init now1 now2)
  show ?case by (simp add: init_def)
next
  case (reachable_serve home now rq req home')
  then show ?case using serve_not_Nil by blast
qed

text \<open>
  C8: the read of the last sorted key in the create operation is within bounds, so the
  operation returns, whenever the store holds a record; and every store the server can
  reach holds a record, since it starts with two and no request removes one. So the
  create operation never panics.
\<close>

theorem AddThermostat_no_panic:
  "(thermostats home \<noteq> [] \<longrightarrow>
      (\<exists>newId home'. AddThermostat home now desired = Inr (newId, home')))
   \<and> (reachable home \<longrightarrow> thermostats home \<noteq> [])
   \<and> (reachable home \<longrightarrow>
      (\<exists>newId home'. AddThermostat home now desired = Inr (newId, home')))"
  using AddThermostat_returns reachable_not_Nil by blast

theorem AddThermostat_no_panic_witness:
  "thermostats (init 0 0) \<noteq> [] \<and> reachable (init 0 0)
   \<and> (\<exists>newId home'. AddThermostat (init 0 0) 4 no_change = Inr (newId, home'))"
  using AddThermostat_no_panic [of "init 0 0" 4 no_change] reachable_init [of 0 0]
  by simp

subsection \<open>Updating a record\<close>

lemma validateData_no_change: "validateData no_change = None"
  by (simp add: validateData_def validateOpMode_def validateFanMode_def validateCoolSetPt_def
      validateHeatSetPt_def no_change_def)

text \<open>
  The two branches of the update of the temperatures. When the midpoint of the merged
  set points differs from the target's currentTemp, both fields are assigned; when it
  does not, neither is, and the new record keeps the zero value in both.
\<close>

lemma UpdateThermostat_midpoint_changed:
  assumes "validateData desired = None"
    and "0 \<le> CoolSetPoint target" and "0 \<le> HeatSetPoint target"
  shows
    "(let cool = (if CoolSetPoint_u desired \<noteq> 0 then CoolSetPoint_u desired
                  else CoolSetPoint target);
          heat = (if HeatSetPoint_u desired \<noteq> 0 then HeatSetPoint_u desired
                  else HeatSetPoint target)
      in (cool + heat) div 2 \<noteq> CurrentTemp target \<longrightarrow>
           (\<exists>r. map_of (thermostats (UpdateThermostat home now target desired)) (Id_t target)
                  = Some r \<and>
                CurrentTemp r = (cool + heat) div 2 \<and> PreviousTemp r = CurrentTemp target))"
  using validateData_None_setpoints [OF assms(1)] assms(2,3)
  by (auto simp add: UpdateThermostat_def Let_def emit_def zero_thermostat_def update_conv'
      quo_2_nonneg)

lemma UpdateThermostat_midpoint_unchanged:
  assumes "quo ((if CoolSetPoint_u desired \<noteq> 0 then CoolSetPoint_u desired
                 else CoolSetPoint target) +
                (if HeatSetPoint_u desired \<noteq> 0 then HeatSetPoint_u desired
                 else HeatSetPoint target)) 2 = CurrentTemp target"
  shows "\<exists>r. map_of (thermostats (UpdateThermostat home now target desired)) (Id_t target) = Some r
     \<and> CurrentTemp r = 0 \<and> PreviousTemp r = 0"
  using assms
  by (auto simp add: UpdateThermostat_def Let_def emit_def zero_thermostat_def update_conv')

text \<open>
  C2, as the code has it: an update with every field empty or zero keeps the id, the
  name, the operating mode, both set points and the fan mode of the record and stamps
  it with the time of the update; and when the midpoint of the record's set points
  differs from its currentTemp, currentTemp becomes that midpoint and previousTemp the
  former currentTemp.
\<close>

theorem UpdateThermostat_no_change:
  "\<exists>r. map_of (thermostats (UpdateThermostat home now target no_change)) (Id_t target) = Some r \<and>
     Id_t r = Id_t target \<and> Name r = Name target \<and> OperatingMode r = OperatingMode target \<and>
     CoolSetPoint r = CoolSetPoint target \<and> HeatSetPoint r = HeatSetPoint target \<and>
     FanMode r = FanMode target \<and> LastChanged r = now \<and>
     (quo (CoolSetPoint target + HeatSetPoint target) 2 \<noteq> CurrentTemp target \<longrightarrow>
        CurrentTemp r = quo (CoolSetPoint target + HeatSetPoint target) 2 \<and>
        PreviousTemp r = CurrentTemp target)"
  by (simp add: UpdateThermostat_def Let_def emit_def no_change_def zero_thermostat_def
      update_conv')

theorem UpdateThermostat_no_change_witness:
  "\<exists>r. map_of (thermostats (UpdateThermostat (init 0 0) 5 (thermostat2 0) no_change)) 2 = Some r \<and>
     Id_t r = 2 \<and> Name r = ''Upstairs Thermostat'' \<and> OperatingMode r = ''cool'' \<and>
     CoolSetPoint r = 69 \<and> HeatSetPoint r = 73 \<and> FanMode r = ''on'' \<and> LastChanged r = 5 \<and>
     CurrentTemp r = 71 \<and> PreviousTemp r = 72"
  using UpdateThermostat_no_change [of "init 0 0" 5 "thermostat2 0"]
  by (simp add: thermostat2_def zero_thermostat_def quo_def)

text \<open>
  C2 as stated, every field but the timestamp unchanged, fails on the first seeded
  record: its currentTemp 71 is not the midpoint 70 of its set points, and the update
  stores 70 and moves 71 to previousTemp.
\<close>

theorem UpdateThermostat_no_change_counterexample:
  "map_of (thermostats (UpdateThermostat (init 0 0) 5 (thermostat1 0) no_change)) 1
     \<noteq> Some ((thermostat1 0)\<lparr>LastChanged := 5\<rparr>)"
  by (simp add: UpdateThermostat_def Let_def emit_def no_change_def zero_thermostat_def
      update_conv' thermostat1_def quo_def)

text \<open>
  C1 at a record whose currentTemp already is the midpoint of the merged set points:
  the first seeded record after one update with no change has set points 68 and 72,
  currentTemp 70 and previousTemp 71. A second update with no change stores currentTemp
  0 and previousTemp 0: the new record starts from the zero value, and the two fields
  are assigned only when the midpoint differs from the former currentTemp.
\<close>

theorem UpdateThermostat_same_midpoint:
  "(let target = (thermostat1 0)\<lparr>CurrentTemp := 70, PreviousTemp := 71, LastChanged := 5\<rparr>;
        home = UpdateThermostat (init 0 0) 5 (thermostat1 0) no_change
    in validateData no_change = None \<and>
       map_of (thermostats home) 1 = Some target \<and>
       quo (CoolSetPoint target + HeatSetPoint target) 2 = CurrentTemp target \<and>
       map_of (thermostats (UpdateThermostat home 6 target no_change)) 1 =
         Some (target\<lparr>CurrentTemp := 0, PreviousTemp := 0, LastChanged := 6\<rparr>))"
  by (simp add: validateData_no_change)
    (simp add: UpdateThermostat_def Let_def emit_def no_change_def zero_thermostat_def
      update_conv' thermostat1_def quo_def)

text \<open>
  C9, as the code has it: the first seeded record has currentTemp 71 and set points
  with midpoint 70, the second currentTemp 72 and midpoint 71. So for each of them a
  validated update whose merged set points have a midpoint other than the seeded
  currentTemp stores that midpoint as currentTemp and the seeded currentTemp as
  previousTemp; every update that gives no set point, the one with all fields empty or
  zero among them, is such an update.
\<close>

theorem seeded_first_update:
  "CurrentTemp (thermostat1 n1) = 71 \<and>
   (CoolSetPoint (thermostat1 n1) + HeatSetPoint (thermostat1 n1)) div 2 = 70 \<and>
   CurrentTemp (thermostat2 n2) = 72 \<and>
   (CoolSetPoint (thermostat2 n2) + HeatSetPoint (thermostat2 n2)) div 2 = 71 \<and>
   (\<forall>target \<in> {thermostat1 n1, thermostat2 n2}.
      validateData desired = None \<longrightarrow>
      (let cool = (if CoolSetPoint_u desired \<noteq> 0 then CoolSetPoint_u desired
                   else CoolSetPoint target);
           heat = (if HeatSetPoint_u desired \<noteq> 0 then HeatSetPoint_u desired
                   else HeatSetPoint target)
       in ((cool + heat) div 2 \<noteq> CurrentTemp target \<longrightarrow>
             (\<exists>r. map_of (thermostats (UpdateThermostat home now target desired)) (Id_t target)
                    = Some r \<and>
                  CurrentTemp r = (cool + heat) div 2 \<and> PreviousTemp r = CurrentTemp target)) \<and>
          (CoolSetPoint_u desired = 0 \<and> HeatSetPoint_u desired = 0 \<longrightarrow>
             (cool + heat) div 2 \<noteq> CurrentTemp target)))"
proof -
  have upd: "\<And>target. 0 \<le> CoolSetPoint target \<Longrightarrow> 0 \<le> HeatSetPoint target \<Longrightarrow>
    validateData desired = None \<Longrightarrow>
      (let cool = (if CoolSetPoint_u desired \<noteq> 0 then CoolSetPoint_u desired
                   else CoolSetPoint target);
           heat = (if HeatSetPoint_u desired \<noteq> 0 then HeatSetPoint_u desired
                   else HeatSetPoint target)
       in (cool + heat) div 2 \<noteq> CurrentTemp target \<longrightarrow>
             (\<exists>r. map_of (thermostats (UpdateThermostat home now target desired)) (Id_t target)
                    = Some r \<and>
                  CurrentTemp r = (cool + heat) div 2 \<and> PreviousTemp r = CurrentTemp target))"
    by (rule UpdateThermostat_midpoint_changed)
  have f1: "CurrentTemp (thermostat1 n1) = 71" "CoolSetPoint (thermostat1 n1) = 68"
    "HeatSetPoint (thermostat1 n1) = 72"
    by (simp_all add: thermostat1_def zero_thermostat_def)
  have f2: "CurrentTemp (thermostat2 n2) = 72" "CoolSetPoint (thermostat2 n2) = 69"
    "HeatSetPoint (thermostat2 n2) = 73"
    by (simp_all add: thermostat2_def zero_thermostat_def)
  show ?thesis
    using upd [of "thermostat1 n1"] upd [of "thermostat2 n2"]
    by (simp add: f1 f2 Let_def)
qed

theorem seeded_first_update_witness:
  "validateData no_change = None \<and>
   (\<exists>r. map_of (thermostats (UpdateThermostat (init 0 0) 5 (thermostat1 0) no_change)) 1 = Some r \<and>
        CurrentTemp r = 70 \<and> PreviousTemp r = 71)"
proof -
  have v: "validateData no_change = None"
    by (simp add: validateData_def validateOpMode_def validateFanMode_def validateCoolSetPt_def
      validateHeatSetPt_def no_change_def)
  have m: "thermostat1 0 \<in> {thermostat1 0, thermostat2 0}" by simp
  from seeded_first_update [of 0 0 no_change "init 0 0" 5]
  have "\<forall>target \<in> {thermostat1 0, thermostat2 0}.
      validateData no_change = None \<longrightarrow>
      (let cool = (if CoolSetPoint_u no_change \<noteq> 0 then CoolSetPoint_u no_change
                   else CoolSetPoint target);
           heat = (if HeatSetPoint_u no_change \<noteq> 0 then HeatSetPoint_u no_change
                   else HeatSetPoint target)
       in ((cool + heat) div 2 \<noteq> CurrentTemp target \<longrightarrow>
             (\<exists>r. map_of (thermostats (UpdateThermostat (init 0 0) 5 target no_change)) (Id_t target)
                    = Some r \<and>
                  CurrentTemp r = (cool + heat) div 2 \<and> PreviousTemp r = CurrentTemp target)) \<and>
          (CoolSetPoint_u no_change = 0 \<and> HeatSetPoint_u no_change = 0 \<longrightarrow>
             (cool + heat) div 2 \<noteq> CurrentTemp target))"
    by blast
  from bspec [OF this m] v show ?thesis
    by (simp add: Let_def no_change_def thermostat1_def zero_thermostat_def)
qed

text \<open>
  C9 as stated, for every first update, fails for the validated update that only sets
  the cool set point of the first seeded record to 70: the merged midpoint is 71, the
  seeded currentTemp, and the stored record has currentTemp 0 and previousTemp 0.
\<close>

theorem seeded_first_update_counterexample:
  "validateData (no_change\<lparr>CoolSetPoint_u := 70\<rparr>) = None \<and>
   map_of (thermostats
       (UpdateThermostat (init 0 0) 5 (thermostat1 0) (no_change\<lparr>CoolSetPoint_u := 70\<rparr>))) 1 =
     Some \<lparr>Id_t = 1, Name = ''Downstairs Thermostat'', CurrentTemp = 0, PreviousTemp = 0,
           OperatingMode = ''heat'', CoolSetPoint = 70, HeatSetPoint = 72, FanMode = ''auto'',
           LastChanged = 5\<rparr>"
  by (simp add: validateData_def validateOpMode_def validateFanMode_def validateCoolSetPt_def
      validateHeatSetPt_def no_change_def minCoolSetPt_def maxCoolSetPt_def
      UpdateThermostat_def Let_def emit_def zero_thermostat_def
      update_conv' thermostat1_def quo_def)

subsection \<open>Routing\<close>

lemma Atoi_abc: "Atoi ''abc'' = (0, Some ErrSyntax)"
  by (simp add: Atoi_def)

text \<open>
  Whenever \<open>Atoi\<close> rejects the identifier and the number it returns is not a key of
  the store, the response carries two errors and the status of the second.
\<close>

lemma HandleRoute_no_return:
  assumes "UserValue_id req = Some idCheck" and "Atoi idCheck = (ident, Some e)"
    and "map_of (thermostats home) ident = None"
  shows "\<exists>req' home'. HandleRoute h now req home = Inr (req', home') \<and>
     StatusCode req' = 404 \<and>
     (\<exists>d1 d2. Body req' = Body req @
        [JErr \<lparr>Code = 400, Msg = ''Invalid identifier provided'', Description = d1\<rparr>,
         JErr \<lparr>Code = 404, Msg = ''Not Found'', Description = d2\<rparr>]) \<and>
     calls home' = calls home @ [Lock, MapRead, Unlock]"
  using assms
  by (simp add: HandleRoute_def Thermostat_def emit_def Let_def sendJSON_def
      StatusBadRequest_def StatusNotFound_def)

text \<open>
  C3 at the request GET /v1/thermostats/abc on the seeded store: the middleware writes
  the 400 error "Invalid identifier provided" and goes on; the lookup of id 0 runs and
  fails, the status becomes 404 and a second error, "Not Found", is appended to the body.
\<close>

theorem HandleRoute_bad_identifier:
  "serve 5 (GET_thermostat ''abc'') (init 0 0) =
     Inr (new_ctx\<lparr>UserValue_id := Some ''abc'', StatusCode := 404,
            ContentType := ''application/json'',
            Body := [JErr \<lparr>Code = 400, Msg = ''Invalid identifier provided'',
                           Description = Error_text ''abc'' ErrSyntax\<rparr>,
                     JErr \<lparr>Code = 404, Msg = ''Not Found'',
                           Description = ''No thermostat found for id: 0''\<rparr>]\<rparr>,
          (init 0 0)\<lparr>calls := [Lock, MapRead, Unlock]\<rparr>)"
  by (simp add: HandleRoute_def Atoi_abc Thermostat_def emit_def init_def Let_def sendJSON_def
      new_ctx_def StatusBadRequest_def StatusNotFound_def StatusOK_def Itoa_def nat_digits.simps)

subsection \<open>Locking\<close>

text \<open>
  The three operations of the store touch the map between \<open>Lock\<close> and \<open>Unlock\<close>:
  they keep the discipline.
\<close>

lemma guarded_locked_access:
  "x = MapRead \<or> x = MapWrite \<Longrightarrow> guarded b (es @ [Lock, x, Unlock]) = guarded b es"
  by (induction b es rule: guarded.induct) auto

lemma guarded_locked_accesses:
  "guarded b (es @ [Lock, MapRead, MapWrite, Unlock]) = guarded b es"
  by (induction b es rule: guarded.induct) auto

lemma Thermostat_guarded:
  "guarded False (calls (snd (Thermostat home k))) = guarded False (calls home)"
  using guarded_locked_access [of MapRead False "calls home"]
  by (simp add: Thermostat_def emit_def Let_def)

lemma UpdateThermostat_guarded:
  "guarded False (calls (UpdateThermostat home now target desired)) = guarded False (calls home)"
  using guarded_locked_access [of MapWrite False "calls home"]
  by (simp add: UpdateThermostat_def emit_def Let_def)

lemma AddThermostat_guarded:
  "AddThermostat home now desired = Inr (newId, home') \<Longrightarrow>
   guarded False (calls home') = guarded False (calls home)"
  using guarded_locked_accesses [of False "calls home"]
  by (auto simp add: AddThermostat_def emit_def Let_def split: sum.splits)

text \<open>
  C10 at the list request on the seeded store: the handler reads the map with no call
  of \<open>Lock\<close>, so the sequence of calls, which kept the discipline before, does not
  keep it after.
\<close>

theorem GetThermostats_unguarded:
  "\<exists>req home. serve 5 GET_thermostats (init 0 0) = Inr (req, home) \<and>
     guarded False (calls (init 0 0)) \<and> calls home = [MapRead] \<and> \<not> guarded False (calls home)"
  by (simp add: HandleRoute_def GetThermostats_def emit_def init_def Let_def new_ctx_def
      sendJSON_def)

end
